theory Spec2Isabelle
  imports Main
begin

section \<open>Data model of package certutil\<close>

text \<open>
  The package is one Go file, \<^verbatim>\<open>certutil.go\<close>: four parsers from PEM text, a comparison
  of two public keys and a key size in bits. Its functions dispatch on the dynamic type of
  an interface value, so the values an interface can hold are a datatype with one
  constructor per Go type the code tells apart.

  Go's \<^verbatim>\<open>string\<close> and \<^verbatim>\<open>[]byte\<close> are sequences of 8-bit bytes, as \<^typ>\<open>string\<close> is here, so
  the conversion \<^verbatim>\<open>[]byte(s)\<close> is the identity. A \<^verbatim>\<open>*big.Int\<close> is an \<^typ>\<open>int\<close>. Go's
  \<^verbatim>\<open>int\<close> (the exponent \<^verbatim>\<open>E\<close>, \<^verbatim>\<open>BitSize\<close>, lengths and sizes) is an \<^typ>\<open>int\<close> too: the sizes
  computed below are eight times a length held in memory and stay far from the bounds of
  a machine word.

  In the type \<open>any\<close> below a key held by pointer (\<^verbatim>\<open>*rsa.PublicKey\<close>) is the structure it
  points to and every \<^verbatim>\<open>*big.Int\<close> field is a number: these are the keys the parsers of the
  library return, and the comparison is stated over them. The argument of \<^verbatim>\<open>KeySize\<close> is
  any Go value; its type \<open>iface\<close> adds the typed nil pointers and the keys with a nil field,
  on which the Go function panics.
\<close>

type_synonym bytes = string

record pem_Block =
  pem_Type :: string
  pem_Headers :: "(string \<times> string) list"
  pem_Bytes :: bytes

record rsa_PublicKey =
  rsa_N :: int
  rsa_E :: int

text \<open>\<^verbatim>\<open>rsa.PrivateKey\<close> embeds \<^verbatim>\<open>rsa.PublicKey\<close>; the embedding is a record extension.\<close>

record rsa_PrivateKey = rsa_PublicKey +
  rsa_D :: int
  rsa_Primes :: "int list"

record elliptic_CurveParams =
  cp_P :: int
  cp_N :: int
  cp_B :: int
  cp_Gx :: int
  cp_Gy :: int
  cp_BitSize :: int
  cp_Name :: string

text \<open>
  \<^verbatim>\<open>ecdsa.PublicKey\<close> embeds an \<^verbatim>\<open>elliptic.Curve\<close>, an interface of which the code calls
  \<^verbatim>\<open>Params()\<close> only; the curve is held as the parameters that call returns.
\<close>

record ecdsa_PublicKey =
  ec_Curve :: elliptic_CurveParams
  ec_X :: int
  ec_Y :: int

record ecdsa_PrivateKey = ecdsa_PublicKey +
  ec_D :: int

text \<open>\<^verbatim>\<open>dsa.PublicKey\<close> embeds \<^verbatim>\<open>dsa.Parameters\<close> (P, Q, G) and adds Y.\<close>

record dsa_PublicKey =
  dsa_P :: int
  dsa_Q :: int
  dsa_G :: int
  dsa_Y :: int

record dsa_PrivateKey = dsa_PublicKey +
  dsa_X :: int

text \<open>
  The dynamic values of \<^verbatim>\<open>crypto.PublicKey\<close>, \<^verbatim>\<open>crypto.PrivateKey\<close> and \<^verbatim>\<open>interface{}\<close>.
  A DSA key held by value and one held by pointer are different Go types, hence different
  constructors. Every other dynamic type is \<open>OtherType\<close> with the name \<^verbatim>\<open>%T\<close> prints for it
  (\<^verbatim>\<open>*ecdh.PublicKey\<close>, \<^verbatim>\<open><nil>\<close>, ...).
\<close>

datatype any =
    RSAPrivateKeyPtr rsa_PrivateKey
  | RSAPublicKeyPtr rsa_PublicKey
  | ECDSAPrivateKeyPtr ecdsa_PrivateKey
  | ECDSAPublicKeyPtr ecdsa_PublicKey
  | Ed25519PrivateKey bytes
  | Ed25519PublicKey bytes
  | DSAPrivateKey dsa_PrivateKey
  | DSAPublicKey dsa_PublicKey
  | DSAPrivateKeyPtr dsa_PrivateKey
  | DSAPublicKeyPtr dsa_PublicKey
  | OtherType string

text \<open>The certificate, of which the code reads the field \<^verbatim>\<open>PublicKey\<close> only.\<close>

record x509_Certificate =
  cert_Raw :: bytes
  cert_PublicKey :: any

text \<open>
  A Go \<^verbatim>\<open>error\<close> is its message: \<^verbatim>\<open>errors.New(m)\<close> is \<open>Error m\<close>, \<^verbatim>\<open>fmt.Errorf\<close> is
  \<open>Error\<close> of the formatted text, and the library's parsers return errors of their own.
\<close>

datatype error = Error string

section \<open>Library primitives\<close>

text \<open>The verb \<^verbatim>\<open>%T\<close> of package fmt: the name of the dynamic type of a value.\<close>

fun fmtT :: "any \<Rightarrow> string" where
  "fmtT (RSAPrivateKeyPtr _) = ''*rsa.PrivateKey''"
| "fmtT (RSAPublicKeyPtr _) = ''*rsa.PublicKey''"
| "fmtT (ECDSAPrivateKeyPtr _) = ''*ecdsa.PrivateKey''"
| "fmtT (ECDSAPublicKeyPtr _) = ''*ecdsa.PublicKey''"
| "fmtT (Ed25519PrivateKey _) = ''ed25519.PrivateKey''"
| "fmtT (Ed25519PublicKey _) = ''ed25519.PublicKey''"
| "fmtT (DSAPrivateKey _) = ''dsa.PrivateKey''"
| "fmtT (DSAPublicKey _) = ''dsa.PublicKey''"
| "fmtT (DSAPrivateKeyPtr _) = ''*dsa.PrivateKey''"
| "fmtT (DSAPublicKeyPtr _) = ''*dsa.PublicKey''"
| "fmtT (OtherType name) = name"

text \<open>
  Modelled from the spec: \<^verbatim>\<open>(*big.Int).Cmp\<close> is not in the repository; the spec has it as
  exact arbitrary-precision comparison. It returns -1, 0 or +1.
\<close>

definition big_Cmp :: "int \<Rightarrow> int \<Rightarrow> int" where
  "big_Cmp x y = (if x < y then - 1 else if x = y then 0 else 1)"

text \<open>
  Modelled from the spec: \<^verbatim>\<open>(*big.Int).BitLen\<close> is not in the repository; it is the
  bit-length of the absolute value, 0 for 0.
\<close>

fun bitLen_nat :: "nat \<Rightarrow> nat" where
  "bitLen_nat n = (if n = 0 then 0 else Suc (bitLen_nat (n div 2)))"

declare bitLen_nat.simps [simp del]

definition big_BitLen :: "int \<Rightarrow> int" where
  "big_BitLen x = int (bitLen_nat (nat \<bar>x\<bar>))"

text \<open>
  Modelled from the spec: \<^verbatim>\<open>(*rsa.PublicKey).Size\<close> is not in the repository; it is the
  byte-length of the modulus, \<^verbatim>\<open>(N.BitLen() + 7) / 8\<close>. A private key has it through the
  embedded public key.
\<close>

definition rsa_Size :: "'a rsa_PublicKey_scheme \<Rightarrow> int" where
  "rsa_Size pub = (big_BitLen (rsa_N pub) + 7) div 8"

text \<open>\<^verbatim>\<open>key.Params()\<close>, promoted from the embedded curve.\<close>

definition Params :: "'a ecdsa_PublicKey_scheme \<Rightarrow> elliptic_CurveParams" where
  "Params key = ec_Curve key"

text \<open>
  Modelled from the spec: \<^verbatim>\<open>ed25519.PublicKey.Equal\<close> is not in the repository; two keys
  are equal when their raw bytes are identical (a value of another type is never equal).
\<close>

fun ed25519_Equal :: "bytes \<Rightarrow> any \<Rightarrow> bool" where
  "ed25519_Equal pub (Ed25519PublicKey xx) = (pub = xx)"
| "ed25519_Equal pub _ = False"

section \<open>The parsers\<close>

text \<open>
  \<^verbatim>\<open>pem.Decode\<close> and the four parsers of package x509 are not part of the repository: each
  function below takes the ones it calls as parameters. \<^verbatim>\<open>pem.Decode\<close> returns the first
  block found (or nil) and the rest of the input, which the code drops.
\<close>

type_synonym pem_Decode_fn = "bytes \<Rightarrow> pem_Block option \<times> bytes"

definition ParseRSA ::
  "pem_Decode_fn \<Rightarrow> (bytes \<Rightarrow> error + rsa_PrivateKey) \<Rightarrow> string \<Rightarrow> error + rsa_PrivateKey" where
  "ParseRSA pem_Decode x509_ParsePKCS1PrivateKey s =
     (case fst (pem_Decode s) of
        None \<Rightarrow> Inl (Error ''invalid PEM'')
      | Some block \<Rightarrow> x509_ParsePKCS1PrivateKey (pem_Bytes block))"

definition ParseECDSA ::
  "pem_Decode_fn \<Rightarrow> (bytes \<Rightarrow> error + ecdsa_PrivateKey) \<Rightarrow> string \<Rightarrow> error + ecdsa_PrivateKey" where
  "ParseECDSA pem_Decode x509_ParseECPrivateKey s =
     (case fst (pem_Decode s) of
        None \<Rightarrow> Inl (Error ''invalid PEM'')
      | Some block \<Rightarrow> x509_ParseECPrivateKey (pem_Bytes block))"

definition ParseX509 ::
  "pem_Decode_fn \<Rightarrow> (bytes \<Rightarrow> error + x509_Certificate) \<Rightarrow> string \<Rightarrow> error + x509_Certificate" where
  "ParseX509 pem_Decode x509_ParseCertificate s =
     (case fst (pem_Decode s) of
        None \<Rightarrow> Inl (Error ''invalid PEM'')
      | Some block \<Rightarrow> x509_ParseCertificate (pem_Bytes block))"

definition ParsePublicKey ::
  "pem_Decode_fn \<Rightarrow> (bytes \<Rightarrow> error + any) \<Rightarrow> (bytes \<Rightarrow> error + x509_Certificate) \<Rightarrow>
   string \<Rightarrow> error + any" where
  "ParsePublicKey pem_Decode x509_ParsePKIXPublicKey x509_ParseCertificate s =
     (case fst (pem_Decode s) of
        None \<Rightarrow> Inl (Error ''data does not contain any valid public keys'')
      | Some block \<Rightarrow>
          (case (case x509_ParsePKIXPublicKey (pem_Bytes block) of
                   Inr rawKey \<Rightarrow> Inr rawKey
                 | Inl err \<Rightarrow>
                     (case x509_ParseCertificate (pem_Bytes block) of
                        Inl err \<Rightarrow> Inl err
                      | Inr cert \<Rightarrow> Inr (cert_PublicKey cert))) of
             Inl err \<Rightarrow> Inl err
           | Inr rawKey \<Rightarrow>
               (case rawKey of
                  RSAPublicKeyPtr key \<Rightarrow> Inr (RSAPublicKeyPtr key)
                | ECDSAPublicKeyPtr key \<Rightarrow> Inr (ECDSAPublicKeyPtr key)
                | Ed25519PublicKey key \<Rightarrow> Inr (Ed25519PublicKey key)
                | _ \<Rightarrow> Inl (Error (''unsupported key type: '' @ fmtT rawKey)))))"

text \<open>
  The key types the type switch of \<^verbatim>\<open>ParsePublicKey\<close> returns: its three case arms.
\<close>

fun supportedPublicKey :: "any \<Rightarrow> bool" where
  "supportedPublicKey (RSAPublicKeyPtr _) = True"
| "supportedPublicKey (ECDSAPublicKeyPtr _) = True"
| "supportedPublicKey (Ed25519PublicKey _) = True"
| "supportedPublicKey _ = False"

section \<open>Comparison of public keys\<close>

text \<open>
  In each arm the statement \<^verbatim>\<open>key2, ok := key2.(T)\<close> declares a new \<^verbatim>\<open>key2\<close> of static type
  \<^verbatim>\<open>T\<close>. When the assertion fails it is the zero value of \<^verbatim>\<open>T\<close>, and it is this variable,
  not the parameter, that the error message formats: \<^verbatim>\<open>%T\<close> prints \<^verbatim>\<open>T\<close> for it, the
  type of \<^verbatim>\<open>key1\<close>.
\<close>

fun ComparePublicKeys :: "any \<Rightarrow> any \<Rightarrow> error + bool" where
  "ComparePublicKeys (RSAPublicKeyPtr key1) k2 =
     (case k2 of
        RSAPublicKeyPtr key2 \<Rightarrow>
          Inr (big_Cmp (rsa_N key1) (rsa_N key2) \<noteq> 0 \<or> rsa_E key1 \<noteq> rsa_E key2)
      | _ \<Rightarrow>
          Inl (Error (''key types do not match: '' @ fmtT (RSAPublicKeyPtr key1) @ '' and '' @
                      ''*rsa.PublicKey'')))"
| "ComparePublicKeys (ECDSAPublicKeyPtr key1) k2 =
     (case k2 of
        ECDSAPublicKeyPtr key2 \<Rightarrow>
          if big_Cmp (ec_X key1) (ec_X key2) \<noteq> 0 \<or> big_Cmp (ec_Y key1) (ec_Y key2) \<noteq> 0
          then Inr False
          else
            let par1 = Params key1; par2 = Params key2
            in Inr (big_Cmp (cp_P par1) (cp_P par2) \<noteq> 0 \<or>
                    big_Cmp (cp_N par1) (cp_N par2) \<noteq> 0 \<or>
                    big_Cmp (cp_B par1) (cp_B par2) \<noteq> 0 \<or>
                    big_Cmp (cp_Gx par1) (cp_Gx par2) \<noteq> 0 \<or>
                    big_Cmp (cp_Gy par1) (cp_Gy par2) \<noteq> 0 \<or>
                    cp_BitSize par1 \<noteq> cp_BitSize par2)
      | _ \<Rightarrow>
          Inl (Error (''key types do not match: '' @ fmtT (ECDSAPublicKeyPtr key1) @ '' and '' @
                      ''*ecdsa.PublicKey'')))"
| "ComparePublicKeys (Ed25519PublicKey key1) k2 =
     (case k2 of
        Ed25519PublicKey key2 \<Rightarrow> Inr (ed25519_Equal key1 (Ed25519PublicKey key2))
      | _ \<Rightarrow>
          Inl (Error (''key types do not match: '' @ fmtT (Ed25519PublicKey key1) @ '' and '' @
                      ''ed25519.PublicKey'')))"
| "ComparePublicKeys key1 k2 = Inl (Error (''unsupported key type: '' @ fmtT key1))"

section \<open>Key size\<close>

text \<open>
  The values \<^verbatim>\<open>KeySize\<close> can be given. \<open>NonNil k\<close> is a value of \<open>any\<close>: no pointer in it is
  nil. The other constructors are the values in which a pointer is nil:
  \<^item> the typed nil pointers, \<^verbatim>\<open>(*rsa.PublicKey)(nil)\<close> and its like; a typed nil pointer
    matches the \<^verbatim>\<open>case\<close> of its type;
  \<^item> a pointer to an RSA key whose modulus \<^verbatim>\<open>N\<close> is nil, as in \<^verbatim>\<open>&rsa.PublicKey{}\<close>;
  \<^item> a pointer to an ECDSA key whose \<^verbatim>\<open>Curve\<close> is the nil interface, as in
    \<^verbatim>\<open>&ecdsa.PublicKey{}\<close>;
  \<^item> a DSA key held by value whose \<^verbatim>\<open>Y\<close> is nil, as in \<^verbatim>\<open>dsa.PublicKey{}\<close>;
  whatever their other fields hold. An Ed25519 key is a slice, and the length of the nil
  slice is 0: it is the empty list.
\<close>

datatype iface =
    NonNil any
  | NilRSAPrivateKeyPtr
  | NilRSAPublicKeyPtr
  | NilECDSAPrivateKeyPtr
  | NilECDSAPublicKeyPtr
  | NilDSAPrivateKeyPtr
  | NilDSAPublicKeyPtr
  | RSAPrivateKeyNilN
  | RSAPublicKeyNilN
  | ECDSAPrivateKeyNilCurve
  | ECDSAPublicKeyNilCurve
  | DSAPrivateKeyNilY
  | DSAPublicKeyNilY

text \<open>The run-time panic of Go on a nil pointer dereference.\<close>

datatype panic = NilPointerDereference

text \<open>
  \<^verbatim>\<open>key.Size()\<close> reads \<^verbatim>\<open>key.N\<close> and calls \<^verbatim>\<open>BitLen\<close> on it, \<^verbatim>\<open>key.Params()\<close> reads
  \<^verbatim>\<open>key.Curve\<close> and calls its method, \<^verbatim>\<open>key.Y.BitLen()\<close> reads through \<^verbatim>\<open>Y\<close>: each panics
  when the pointer it goes through is nil. The default arm reads nothing, so a nil pointer
  to a DSA key gets \<open>-1\<close> like any other value no arm names.
\<close>

fun KeySize :: "iface \<Rightarrow> panic + int" where
  "KeySize (NonNil (RSAPrivateKeyPtr key)) = Inr (rsa_Size key * 8)"
| "KeySize NilRSAPrivateKeyPtr = Inl NilPointerDereference"
| "KeySize RSAPrivateKeyNilN = Inl NilPointerDereference"
| "KeySize (NonNil (RSAPublicKeyPtr key)) = Inr (rsa_Size key * 8)"
| "KeySize NilRSAPublicKeyPtr = Inl NilPointerDereference"
| "KeySize RSAPublicKeyNilN = Inl NilPointerDereference"
| "KeySize (NonNil (ECDSAPrivateKeyPtr key)) = Inr (cp_BitSize (Params key))"
| "KeySize NilECDSAPrivateKeyPtr = Inl NilPointerDereference"
| "KeySize ECDSAPrivateKeyNilCurve = Inl NilPointerDereference"
| "KeySize (NonNil (ECDSAPublicKeyPtr key)) = Inr (cp_BitSize (Params key))"
| "KeySize NilECDSAPublicKeyPtr = Inl NilPointerDereference"
| "KeySize ECDSAPublicKeyNilCurve = Inl NilPointerDereference"
| "KeySize (NonNil (Ed25519PrivateKey key)) = Inr (int (length key) * 8)"
| "KeySize (NonNil (Ed25519PublicKey key)) = Inr (int (length key) * 8)"
| "KeySize (NonNil (DSAPrivateKey key)) = Inr (big_BitLen (dsa_Y key))"
| "KeySize DSAPrivateKeyNilY = Inl NilPointerDereference"
| "KeySize (NonNil (DSAPublicKey key)) = Inr (big_BitLen (dsa_Y key))"
| "KeySize DSAPublicKeyNilY = Inl NilPointerDereference"
| "KeySize _ = Inr (- 1)"

section \<open>Example values\<close>

text \<open>
  Concrete keys at which the theorems below are evaluated. \<open>rsa2048_public\<close> is a 2048-bit
  RSA modulus (the product of the two 1024-bit primes of \<open>rsa2048_private\<close>) with the
  exponent 65537; \<open>rsa_small\<close> is the textbook key \<open>61 * 53\<close>.
\<close>

definition rsa2048_public :: rsa_PublicKey where
  "rsa2048_public = \<lparr>rsa_N =
     29920986806986699700058616283511867490357976668287737758595660560204267408739936178421584481800161521093782853508683334477990430938231678910105200571890493145023123865737869622815677920601260030620964460718017886363634392460241608226247985694470806665663795736350270168089598800191813359166693896963740368069669391920781557697016134200831005675076600638027709186209984133896737166549411145382349669148339724346312097797619679924666634339274685713863130244338047938328391576490417027684747051665898570893899114422972615834970826090444124294809676083994044602282107202491852414905071264756763358448676422517753695029961,
     rsa_E = 65537\<rparr>"

definition rsa2048_private :: rsa_PrivateKey where
  "rsa2048_private = \<lparr>rsa_N = rsa_N rsa2048_public, rsa_E = rsa_E rsa2048_public,
     rsa_D =
     8765323797356266651531583289243394478651491433151597986286801151950222469450814573287089742680948182606459511489894431216609522614448479536675614473957086499096677527172457678692009100166678232569264639536829964757242728547906963033641074161895494410395337204055553915454662364235204917567806828628207750226024077175527152404173046900150663217245440201073825313060971673529631946832270222728861138758755403563338787893882683309724698869925339087513988887027981432089555946955993746940480137800029664681149779322187798570499177582362129301973222097295694724998050107989487757860939921778198001498174763721390891374573,
     rsa_Primes =
     [170405420601024664844436494090705495973727781099169644679483960204585973362974686263900246934846912188085152079953161496388480365616909872067989177081921134094102830249763717369723987573646456089755451928759400369831716938661442770692107776193603072813636122371646870645282450870633417914578703515614948654471,
      175587059974116702556146131388770658366667093202549149214395138632435119456216469172026564208776270498216833618005629003337918032291196969020293955992372488131719440773964306031557946586103662582230381206738776436293617135778365254342108305171765807180997257144682903136166768280746200537958363306071511206191]\<rparr>"

definition rsa_small :: rsa_PublicKey where
  "rsa_small = \<lparr>rsa_N = 3233, rsa_E = 17\<rparr>"

text \<open>
  The parameters of NIST P-256, as \<^verbatim>\<open>elliptic.P256().Params()\<close> returns them, the public key
  whose point is the generator \<open>G\<close> (private scalar 1) and the one whose point is \<open>2G\<close>.
\<close>

definition elliptic_P256 :: elliptic_CurveParams where
  "elliptic_P256 = \<lparr>
     cp_P = 115792089210356248762697446949407573530086143415290314195533631308867097853951,
     cp_N = 115792089210356248762697446949407573529996955224135760342422259061068512044369,
     cp_B = 41058363725152142129326129780047268409114441015993725554835256314039467401291,
     cp_Gx = 48439561293906451759052585252797914202762949526041747995844080717082404635286,
     cp_Gy = 36134250956749795798585127919587881956611106672985015071877198253568414405109,
     cp_BitSize = 256,
     cp_Name = ''P-256''\<rparr>"

definition p256_G :: ecdsa_PublicKey where
  "p256_G = \<lparr>ec_Curve = elliptic_P256,
     ec_X = 48439561293906451759052585252797914202762949526041747995844080717082404635286,
     ec_Y = 36134250956749795798585127919587881956611106672985015071877198253568414405109\<rparr>"

definition p256_2G :: ecdsa_PublicKey where
  "p256_2G = \<lparr>ec_Curve = elliptic_P256,
     ec_X = 56515219790691171413109057904011688695424810155802929973526481321309856242040,
     ec_Y = 3377031843712258259223711451491452598088675519751548567112458094635497583569\<rparr>"

definition p256_private :: ecdsa_PrivateKey where
  "p256_private = \<lparr>ec_Curve = elliptic_P256, ec_X = ec_X p256_G, ec_Y = ec_Y p256_G, ec_D = 1\<rparr>"

text \<open>
  The same curve equation and group, parameterised by the generator \<open>2G\<close> instead of \<open>G\<close>:
  a distinct set of domain parameters on which the point \<open>G\<close> still lies.
\<close>

definition elliptic_P256_other_generator :: elliptic_CurveParams where
  "elliptic_P256_other_generator =
     elliptic_P256\<lparr>cp_Gx := ec_X p256_2G, cp_Gy := ec_Y p256_2G, cp_Name := ''P-256/2G''\<rparr>"

definition p256_G_other_generator :: ecdsa_PublicKey where
  "p256_G_other_generator = p256_G\<lparr>ec_Curve := elliptic_P256_other_generator\<rparr>"

text \<open>
  The first test vector of RFC 8032 for Ed25519: the 32-byte seed and the 32-byte public
  key. An \<^verbatim>\<open>ed25519.PrivateKey\<close> is the seed followed by the public key, 64 bytes
  (\<^verbatim>\<open>ed25519.PrivateKeySize\<close>).
\<close>

definition ed25519_seed :: bytes where
  "ed25519_seed = map char_of
     ([157, 97, 177, 157, 239, 253, 90, 96, 186, 132, 74, 244, 146, 236, 44, 196, 68,
      73, 197, 105, 123, 50, 105, 25, 112, 59, 172, 3, 28, 174, 127, 96] :: nat list)"

definition ed25519_public :: bytes where
  "ed25519_public = map char_of
     ([215, 90, 152, 1, 130, 177, 10, 183, 213, 75, 254, 211, 201, 100, 7, 58, 14,
      225, 114, 243, 218, 166, 35, 37, 175, 2, 26, 104, 247, 7, 81, 26] :: nat list)"

definition ed25519_private :: bytes where
  "ed25519_private = ed25519_seed @ ed25519_public"

text \<open>A toy DSA key: \<open>60\<close> has order \<open>47\<close> modulo \<open>283\<close>, and \<open>60 ^ 24 mod 283 = 158\<close>.\<close>

definition dsa_small :: dsa_PublicKey where
  "dsa_small = \<lparr>dsa_P = 283, dsa_Q = 47, dsa_G = 60, dsa_Y = 158\<rparr>"

definition dsa_small_private :: dsa_PrivateKey where
  "dsa_small_private = \<lparr>dsa_P = 283, dsa_Q = 47, dsa_G = 60, dsa_Y = 158, dsa_X = 24\<rparr>"

text \<open>
  Stand-ins for the library's decoders, to instantiate the parsers: a PEM block is found
  exactly when the text starts with a BEGIN marker, the payload \<open>spki\<close> decodes as a bare
  RSA public key, \<open>dsa\<close> as a bare DSA public key (which the library returns by pointer),
  \<open>cert\<close> as a certificate of an EC key, \<open>dsacert\<close> as a certificate of a DSA key, and
  nothing else decodes.
\<close>

definition example_pem_Decode :: pem_Decode_fn where
  "example_pem_Decode s =
     (if take 11 s = ''-----BEGIN ''
      then (Some \<lparr>pem_Type = ''EXAMPLE'', pem_Headers = [], pem_Bytes = drop 11 s\<rparr>, [])
      else (None, s))"

definition example_ParsePKIXPublicKey :: "bytes \<Rightarrow> error + any" where
  "example_ParsePKIXPublicKey der =
     (if der = ''spki'' then Inr (RSAPublicKeyPtr rsa_small)
      else if der = ''dsa'' then Inr (DSAPublicKeyPtr dsa_small)
      else Inl (Error ''x509: failed to parse public key''))"

definition example_ParseCertificate :: "bytes \<Rightarrow> error + x509_Certificate" where
  "example_ParseCertificate der =
     (if der = ''cert'' then Inr \<lparr>cert_Raw = der, cert_PublicKey = ECDSAPublicKeyPtr p256_G\<rparr>
      else if der = ''dsacert''
      then Inr \<lparr>cert_Raw = der, cert_PublicKey = DSAPublicKeyPtr dsa_small\<rparr>
      else Inl (Error ''x509: malformed certificate''))"

definition example_ParsePKCS1PrivateKey :: "bytes \<Rightarrow> error + rsa_PrivateKey" where
  "example_ParsePKCS1PrivateKey der =
     (if der = ''rsa'' then Inr rsa2048_private
      else Inl (Error ''x509: failed to parse private key''))"

definition example_ParseECPrivateKey :: "bytes \<Rightarrow> error + ecdsa_PrivateKey" where
  "example_ParseECPrivateKey der =
     (if der = ''ec'' then Inr p256_private
      else Inl (Error ''x509: failed to parse EC private key''))"

section \<open>Facts about the library primitives\<close>

lemma big_Cmp_eq_0 [simp]: "big_Cmp x y = 0 \<longleftrightarrow> x = y"
  by (simp add: big_Cmp_def)

lemma bitLen_nat_bounds: "2 ^ k \<le> n \<Longrightarrow> n < 2 ^ Suc k \<Longrightarrow> bitLen_nat n = Suc k"
proof (induction k arbitrary: n)
  case 0
  then have "n = 1" by simp
  then show ?case by (simp add: bitLen_nat.simps)
next
  case (Suc k)
  from Suc.prems have "2 ^ k \<le> n div 2" and "n div 2 < 2 ^ Suc k" by auto
  then have "bitLen_nat (n div 2) = Suc k" by (rule Suc.IH)
  moreover from Suc.prems have "n \<noteq> 0" by auto
  ultimately show ?case by (subst bitLen_nat.simps) simp
qed

lemma big_BitLen_bounds:
  assumes "2 ^ k \<le> x" and "x < 2 ^ Suc k"
  shows "big_BitLen x = int (Suc k)"
proof -
  from assms have "0 \<le> x" by (meson order_trans zero_le_numeral zero_le_power)
  with assms have "2 ^ k \<le> nat x" and "nat x < 2 ^ Suc k"
    by (simp_all add: le_nat_iff nat_less_iff)
  then have "bitLen_nat (nat x) = Suc k" by (rule bitLen_nat_bounds)
  with \<open>0 \<le> x\<close> show ?thesis by (simp add: big_BitLen_def)
qed

lemma rsa_Size_2048:
  assumes "2 ^ 2047 \<le> rsa_N pub" and "rsa_N pub < 2 ^ 2048"
  shows "rsa_Size pub * 8 = 2048"
proof -
  have "big_BitLen (rsa_N pub) = int (Suc 2047)"
    using assms by (intro big_BitLen_bounds) simp_all
  then show ?thesis by (simp add: rsa_Size_def)
qed

lemma rsa2048_public_bits:
  "2 ^ 2047 \<le> rsa_N rsa2048_public" "rsa_N rsa2048_public < 2 ^ 2048"
  by (simp_all add: rsa2048_public_def)

lemma rsa2048_private_bits:
  "2 ^ 2047 \<le> rsa_N rsa2048_private" "rsa_N rsa2048_private < 2 ^ 2048"
  using rsa2048_public_bits by (simp_all add: rsa2048_private_def)

lemma length_ed25519_public: "length ed25519_public = 32"
  by (simp add: ed25519_public_def)

lemma length_ed25519_private: "length ed25519_private = 64"
  by (simp add: ed25519_private_def ed25519_seed_def ed25519_public_def)

section \<open>What the comparison computes\<close>

text \<open>
  Two RSA keys: the result is \<open>True\<close> exactly when the moduli or the exponents differ.
\<close>

lemma ComparePublicKeys_rsa:
  "ComparePublicKeys (RSAPublicKeyPtr a) (RSAPublicKeyPtr b) =
     Inr (rsa_N a \<noteq> rsa_N b \<or> rsa_E a \<noteq> rsa_E b)"
  by simp

lemma ComparePublicKeys_rsa_witness:
  "ComparePublicKeys (RSAPublicKeyPtr rsa_small) (RSAPublicKeyPtr rsa_small) = Inr False \<and>
   ComparePublicKeys (RSAPublicKeyPtr rsa_small) (RSAPublicKeyPtr rsa2048_public) = Inr True"
  using ComparePublicKeys_rsa [of rsa_small rsa_small]
    ComparePublicKeys_rsa [of rsa_small rsa2048_public]
  by (simp add: rsa_small_def rsa2048_public_def)

text \<open>
  Two EC keys: the result is \<open>True\<close> exactly when the points are equal and a domain
  parameter differs.
\<close>

lemma ComparePublicKeys_ecdsa:
  "ComparePublicKeys (ECDSAPublicKeyPtr a) (ECDSAPublicKeyPtr b) =
     Inr (ec_X a = ec_X b \<and> ec_Y a = ec_Y b \<and>
          (cp_P (ec_Curve a) \<noteq> cp_P (ec_Curve b) \<or> cp_N (ec_Curve a) \<noteq> cp_N (ec_Curve b) \<or>
           cp_B (ec_Curve a) \<noteq> cp_B (ec_Curve b) \<or> cp_Gx (ec_Curve a) \<noteq> cp_Gx (ec_Curve b) \<or>
           cp_Gy (ec_Curve a) \<noteq> cp_Gy (ec_Curve b) \<or>
           cp_BitSize (ec_Curve a) \<noteq> cp_BitSize (ec_Curve b)))"
  by (auto simp add: Params_def Let_def)

lemma ComparePublicKeys_ecdsa_witness:
  "ComparePublicKeys (ECDSAPublicKeyPtr p256_G) (ECDSAPublicKeyPtr p256_G) = Inr False \<and>
   ComparePublicKeys (ECDSAPublicKeyPtr p256_G_other_generator) (ECDSAPublicKeyPtr p256_G) =
     Inr True"
  using ComparePublicKeys_ecdsa [of p256_G p256_G]
    ComparePublicKeys_ecdsa [of p256_G_other_generator p256_G]
  by (simp add: p256_G_def p256_2G_def p256_G_other_generator_def
      elliptic_P256_other_generator_def elliptic_P256_def)

text \<open>Two Ed25519 keys: the result is \<open>True\<close> exactly when the raw bytes are identical.\<close>

lemma ComparePublicKeys_ed25519:
  "ComparePublicKeys (Ed25519PublicKey a) (Ed25519PublicKey b) = Inr (a = b)"
  by simp

text \<open>
  Two keys of accepted types that differ: an error and no result, with a message that names
  the type of the first key twice.
\<close>

lemma ComparePublicKeys_mismatch:
  assumes "supportedPublicKey a" and "supportedPublicKey b" and "fmtT a \<noteq> fmtT b"
  shows "ComparePublicKeys a b =
     Inl (Error (''key types do not match: '' @ fmtT a @ '' and '' @ fmtT a))"
  using assms by (cases a; cases b) simp_all

lemma ComparePublicKeys_mismatch_witness:
  "ComparePublicKeys (Ed25519PublicKey ed25519_public) (ECDSAPublicKeyPtr p256_2G) =
     Inl (Error ''key types do not match: ed25519.PublicKey and ed25519.PublicKey'')"
  using ComparePublicKeys_mismatch [of "Ed25519PublicKey ed25519_public" "ECDSAPublicKeyPtr p256_2G"]
  by simp

text \<open>
  The comparison is symmetric in its outcome: swapping the keys gives an error exactly
  when the original order does, and the same boolean otherwise (the messages may differ).
\<close>

lemma ComparePublicKeys_symmetric:
  "map_sum (\<lambda>_. ()) id (ComparePublicKeys a b) = map_sum (\<lambda>_. ()) id (ComparePublicKeys b a)"
  by (cases a; cases b) (auto simp add: Params_def Let_def)

section \<open>The claims\<close>

text \<open>
  C1 (reflexivity of the comparison in each family). The code does not have it: comparing
  an RSA key with itself, or an EC key with itself, returns \<open>false\<close> with no error; only
  an Ed25519 key compares equal to itself. The RSA and EC arms return the disjunction of
  the inequalities, the negation of what the doc comment of \<^verbatim>\<open>ComparePublicKeys\<close>
  ("reports whether 2 public keys are equal") and the Ed25519 arm say.
\<close>

theorem C1_compare_key_with_itself:
  "ComparePublicKeys (RSAPublicKeyPtr rsa2048_public) (RSAPublicKeyPtr rsa2048_public) = Inr False \<and>
   ComparePublicKeys (ECDSAPublicKeyPtr p256_G) (ECDSAPublicKeyPtr p256_G) = Inr False \<and>
   ComparePublicKeys (Ed25519PublicKey ed25519_public) (Ed25519PublicKey ed25519_public) = Inr True"
  by simp

text \<open>
  C2 (two RSA keys compare equal iff moduli and exponents are equal). The code returns the
  opposite: \<open>false\<close> for two keys with the same modulus and exponent, \<open>true\<close> for keys that
  differ in the exponent or in the modulus.
\<close>

theorem C2_compare_rsa_inverted:
  "ComparePublicKeys (RSAPublicKeyPtr \<lparr>rsa_N = 3233, rsa_E = 17\<rparr>)
     (RSAPublicKeyPtr \<lparr>rsa_N = 3233, rsa_E = 17\<rparr>) = Inr False \<and>
   ComparePublicKeys (RSAPublicKeyPtr \<lparr>rsa_N = 3233, rsa_E = 17\<rparr>)
     (RSAPublicKeyPtr \<lparr>rsa_N = 3233, rsa_E = 3\<rparr>) = Inr True \<and>
   ComparePublicKeys (RSAPublicKeyPtr \<lparr>rsa_N = 3233, rsa_E = 17\<rparr>)
     (RSAPublicKeyPtr \<lparr>rsa_N = 3127, rsa_E = 17\<rparr>) = Inr True"
  by simp

text \<open>
  C3 (two EC keys compare equal iff points and domain parameters are equal). The code
  returns \<open>false\<close> for two keys with the same point on the same curve and \<open>true\<close> for the
  same point under domain parameters that differ; only keys with different points get the
  result the claim states, \<open>false\<close>.
\<close>

theorem C3_compare_ecdsa_inverted:
  "ComparePublicKeys (ECDSAPublicKeyPtr p256_2G) (ECDSAPublicKeyPtr p256_2G) = Inr False \<and>
   ComparePublicKeys (ECDSAPublicKeyPtr p256_G) (ECDSAPublicKeyPtr p256_G_other_generator) =
     Inr True \<and>
   ComparePublicKeys (ECDSAPublicKeyPtr p256_G) (ECDSAPublicKeyPtr p256_2G) = Inr False"
  by (simp add: Params_def Let_def p256_G_def p256_2G_def p256_G_other_generator_def
      elliptic_P256_other_generator_def elliptic_P256_def)

text \<open>
  C4 (keys of different families: an error that carries both type names, never a
  successful \<open>false\<close>). The comparison does fail, but its message names the type of the
  first key twice: the \<^verbatim>\<open>key2\<close> it formats is the variable the failed type assertion
  declared, of the type of \<^verbatim>\<open>key1\<close>, not the parameter.
\<close>

theorem C4_mismatch_message_names_first_type_twice:
  "ComparePublicKeys (RSAPublicKeyPtr rsa_small) (ECDSAPublicKeyPtr p256_G) =
     Inl (Error ''key types do not match: *rsa.PublicKey and *rsa.PublicKey'') \<and>
   ComparePublicKeys (ECDSAPublicKeyPtr p256_G) (Ed25519PublicKey ed25519_public) =
     Inl (Error ''key types do not match: *ecdsa.PublicKey and *ecdsa.PublicKey'') \<and>
   ComparePublicKeys (Ed25519PublicKey ed25519_public) (RSAPublicKeyPtr rsa_small) =
     Inl (Error ''key types do not match: ed25519.PublicKey and ed25519.PublicKey'')"
  by simp

text \<open>
  C5 (the two-stage fallback of \<^verbatim>\<open>ParsePublicKey\<close>). With a PEM block found: when the
  payload decodes as a SubjectPublicKeyInfo, that key goes to the type switch, whatever the
  certificate parser would say; when it does not but decodes as a certificate, the
  certificate's public key goes to the type switch, which returns it when it is of an
  accepted type; when both decodings fail, the error returned is the certificate parser's,
  not the first one.
\<close>

theorem C5_ParsePublicKey_fallback:
  assumes "fst (pem_Decode s) = Some block"
  shows "(pkix (pem_Bytes block) = Inr rawKey \<longrightarrow>
            ParsePublicKey pem_Decode pkix pcert s =
              (if supportedPublicKey rawKey then Inr rawKey
               else Inl (Error (''unsupported key type: '' @ fmtT rawKey)))) \<and>
         (pkix (pem_Bytes block) = Inl err_pkix \<and> pcert (pem_Bytes block) = Inr cert \<longrightarrow>
            ParsePublicKey pem_Decode pkix pcert s =
              (if supportedPublicKey (cert_PublicKey cert) then Inr (cert_PublicKey cert)
               else Inl (Error (''unsupported key type: '' @ fmtT (cert_PublicKey cert))))) \<and>
         (pkix (pem_Bytes block) = Inl err_pkix \<and> pcert (pem_Bytes block) = Inl err_cert \<longrightarrow>
            ParsePublicKey pem_Decode pkix pcert s = Inl err_cert)"
proof (intro conjI impI)
  assume "pkix (pem_Bytes block) = Inr rawKey"
  with assms show "ParsePublicKey pem_Decode pkix pcert s =
      (if supportedPublicKey rawKey then Inr rawKey
       else Inl (Error (''unsupported key type: '' @ fmtT rawKey)))"
    by (cases rawKey) (simp_all add: ParsePublicKey_def)
next
  assume "pkix (pem_Bytes block) = Inl err_pkix \<and> pcert (pem_Bytes block) = Inr cert"
  with assms show "ParsePublicKey pem_Decode pkix pcert s =
      (if supportedPublicKey (cert_PublicKey cert) then Inr (cert_PublicKey cert)
       else Inl (Error (''unsupported key type: '' @ fmtT (cert_PublicKey cert))))"
    by (cases "cert_PublicKey cert") (simp_all add: ParsePublicKey_def)
next
  assume "pkix (pem_Bytes block) = Inl err_pkix \<and> pcert (pem_Bytes block) = Inl err_cert"
  with assms show "ParsePublicKey pem_Decode pkix pcert s = Inl err_cert"
    by (simp add: ParsePublicKey_def)
qed

theorem C5_ParsePublicKey_fallback_witness:
  "ParsePublicKey example_pem_Decode example_ParsePKIXPublicKey example_ParseCertificate
     ''-----BEGIN spki'' = Inr (RSAPublicKeyPtr rsa_small) \<and>
   ParsePublicKey example_pem_Decode example_ParsePKIXPublicKey example_ParseCertificate
     ''-----BEGIN cert'' = Inr (ECDSAPublicKeyPtr p256_G) \<and>
   ParsePublicKey example_pem_Decode example_ParsePKIXPublicKey example_ParseCertificate
     ''-----BEGIN junk'' = Inl (Error ''x509: malformed certificate'') \<and>
   example_ParsePKIXPublicKey ''junk'' = Inl (Error ''x509: failed to parse public key'')"
proof -
  show ?thesis
    using C5_ParsePublicKey_fallback [where pem_Decode = example_pem_Decode
          and s = "''-----BEGIN spki''"
          and block = "\<lparr>pem_Type = ''EXAMPLE'', pem_Headers = [], pem_Bytes = ''spki''\<rparr>"
          and pkix = example_ParsePKIXPublicKey and pcert = example_ParseCertificate
          and rawKey = "RSAPublicKeyPtr rsa_small"]
      C5_ParsePublicKey_fallback [where pem_Decode = example_pem_Decode
          and s = "''-----BEGIN cert''"
          and block = "\<lparr>pem_Type = ''EXAMPLE'', pem_Headers = [], pem_Bytes = ''cert''\<rparr>"
          and pkix = example_ParsePKIXPublicKey and pcert = example_ParseCertificate
          and err_pkix = "Error ''x509: failed to parse public key''"
          and cert = "\<lparr>cert_Raw = ''cert'', cert_PublicKey = ECDSAPublicKeyPtr p256_G\<rparr>"]
      C5_ParsePublicKey_fallback [where pem_Decode = example_pem_Decode
          and s = "''-----BEGIN junk''"
          and block = "\<lparr>pem_Type = ''EXAMPLE'', pem_Headers = [], pem_Bytes = ''junk''\<rparr>"
          and pkix = example_ParsePKIXPublicKey and pcert = example_ParseCertificate
          and err_pkix = "Error ''x509: failed to parse public key''"
          and err_cert = "Error ''x509: malformed certificate''"]
    by (simp add: example_pem_Decode_def example_ParsePKIXPublicKey_def
        example_ParseCertificate_def)
qed

text \<open>
  C6 (only RSA, EC and Ed25519 keys are accepted). Whichever stage produced the decoded
  key, a pointer to an RSA or ECDSA public key or an Ed25519 public key is returned as it
  is, and every other key is refused with an error whose message ends in the name of its
  dynamic type.
\<close>

theorem C6_ParsePublicKey_accepts_three_types:
  assumes "fst (pem_Decode s) = Some block"
    and "pkix (pem_Bytes block) = Inr rawKey \<or>
         (pkix (pem_Bytes block) = Inl err_pkix \<and> pcert (pem_Bytes block) = Inr cert \<and>
          cert_PublicKey cert = rawKey)"
  shows "(supportedPublicKey rawKey \<longrightarrow> ParsePublicKey pem_Decode pkix pcert s = Inr rawKey) \<and>
         (\<not> supportedPublicKey rawKey \<longrightarrow>
            ParsePublicKey pem_Decode pkix pcert s =
              Inl (Error (''unsupported key type: '' @ fmtT rawKey)))"
  using assms by (cases rawKey) (auto simp add: ParsePublicKey_def)

theorem C6_ParsePublicKey_accepts_three_types_witness:
  "ParsePublicKey example_pem_Decode example_ParsePKIXPublicKey example_ParseCertificate
     ''-----BEGIN dsa'' = Inl (Error ''unsupported key type: *dsa.PublicKey'') \<and>
   ParsePublicKey example_pem_Decode example_ParsePKIXPublicKey example_ParseCertificate
     ''-----BEGIN dsacert'' = Inl (Error ''unsupported key type: *dsa.PublicKey'') \<and>
   ParsePublicKey example_pem_Decode example_ParsePKIXPublicKey example_ParseCertificate
     ''-----BEGIN spki'' = Inr (RSAPublicKeyPtr rsa_small) \<and>
   ParsePublicKey example_pem_Decode example_ParsePKIXPublicKey example_ParseCertificate
     ''-----BEGIN cert'' = Inr (ECDSAPublicKeyPtr p256_G)"
proof -
  show ?thesis
    using C6_ParsePublicKey_accepts_three_types [where pem_Decode = example_pem_Decode
          and s = "''-----BEGIN dsa''"
          and block = "\<lparr>pem_Type = ''EXAMPLE'', pem_Headers = [], pem_Bytes = ''dsa''\<rparr>"
          and pkix = example_ParsePKIXPublicKey and pcert = example_ParseCertificate
          and rawKey = "DSAPublicKeyPtr dsa_small"]
      C6_ParsePublicKey_accepts_three_types [where pem_Decode = example_pem_Decode
          and s = "''-----BEGIN dsacert''"
          and block = "\<lparr>pem_Type = ''EXAMPLE'', pem_Headers = [], pem_Bytes = ''dsacert''\<rparr>"
          and pkix = example_ParsePKIXPublicKey and pcert = example_ParseCertificate
          and rawKey = "DSAPublicKeyPtr dsa_small"
          and err_pkix = "Error ''x509: failed to parse public key''"
          and cert = "\<lparr>cert_Raw = ''dsacert'', cert_PublicKey = DSAPublicKeyPtr dsa_small\<rparr>"]
      C6_ParsePublicKey_accepts_three_types [where pem_Decode = example_pem_Decode
          and s = "''-----BEGIN spki''"
          and block = "\<lparr>pem_Type = ''EXAMPLE'', pem_Headers = [], pem_Bytes = ''spki''\<rparr>"
          and pkix = example_ParsePKIXPublicKey and pcert = example_ParseCertificate
          and rawKey = "RSAPublicKeyPtr rsa_small"]
      C6_ParsePublicKey_accepts_three_types [where pem_Decode = example_pem_Decode
          and s = "''-----BEGIN cert''"
          and block = "\<lparr>pem_Type = ''EXAMPLE'', pem_Headers = [], pem_Bytes = ''cert''\<rparr>"
          and pkix = example_ParsePKIXPublicKey and pcert = example_ParseCertificate
          and rawKey = "ECDSAPublicKeyPtr p256_G"
          and err_pkix = "Error ''x509: failed to parse public key''"
          and cert = "\<lparr>cert_Raw = ''cert'', cert_PublicKey = ECDSAPublicKeyPtr p256_G\<rparr>"]
    by (simp add: example_pem_Decode_def example_ParsePKIXPublicKey_def
        example_ParseCertificate_def)
qed

text \<open>
  C7, as stated (for every input the size is an integer and the function never fails),
  fails on a typed nil pointer and on a key whose modulus is nil:
  \<^verbatim>\<open>KeySize((*rsa.PublicKey)(nil))\<close> and \<^verbatim>\<open>KeySize(&rsa.PublicKey{})\<close> match the arm of
  \<^verbatim>\<open>*rsa.PublicKey\<close>, whose \<^verbatim>\<open>key.Size()\<close> dereferences nil, and panic.
\<close>

theorem C7_KeySize_nil_counterexample:
  "KeySize NilRSAPublicKeyPtr = Inl NilPointerDereference \<and>
   KeySize RSAPublicKeyNilN = Inl NilPointerDereference"
  by simp

text \<open>
  C7, amended: for every input in which no pointer is nil the size is an integer and the
  function does not fail. For an RSA key, public or private, it is the byte-length of the
  modulus, \<open>(BitLen N + 7) div 8\<close>, times 8, hence 2048 when the modulus has 2048 bits; for
  an EC key, public or private, it is the bit size the curve declares, hence 256 on P-256;
  for a value of a type no arm names it is the sentinel \<open>-1\<close>.
\<close>

theorem C7_KeySize_non_nil:
  "(\<exists>n. KeySize (NonNil k) = Inr n) \<and>
   KeySize (NonNil (RSAPublicKeyPtr pub)) = Inr ((big_BitLen (rsa_N pub) + 7) div 8 * 8) \<and>
   KeySize (NonNil (RSAPrivateKeyPtr priv)) = Inr ((big_BitLen (rsa_N priv) + 7) div 8 * 8) \<and>
   (2 ^ 2047 \<le> rsa_N pub \<and> rsa_N pub < 2 ^ 2048 \<longrightarrow>
      KeySize (NonNil (RSAPublicKeyPtr pub)) = Inr 2048) \<and>
   (2 ^ 2047 \<le> rsa_N priv \<and> rsa_N priv < 2 ^ 2048 \<longrightarrow>
      KeySize (NonNil (RSAPrivateKeyPtr priv)) = Inr 2048) \<and>
   KeySize (NonNil (ECDSAPublicKeyPtr ecpub)) = Inr (cp_BitSize (ec_Curve ecpub)) \<and>
   KeySize (NonNil (ECDSAPrivateKeyPtr ecpriv)) = Inr (cp_BitSize (ec_Curve ecpriv)) \<and>
   (ec_Curve ecpub = elliptic_P256 \<longrightarrow> KeySize (NonNil (ECDSAPublicKeyPtr ecpub)) = Inr 256) \<and>
   (ec_Curve ecpriv = elliptic_P256 \<longrightarrow> KeySize (NonNil (ECDSAPrivateKeyPtr ecpriv)) = Inr 256) \<and>
   KeySize (NonNil (OtherType name)) = Inr (- 1)"
proof -
  have total: "\<exists>n. KeySize (NonNil k) = Inr n"
    by (cases k) simp_all
  have rsa: "KeySize (NonNil (RSAPublicKeyPtr pub)) = Inr ((big_BitLen (rsa_N pub) + 7) div 8 * 8)"
    "KeySize (NonNil (RSAPrivateKeyPtr priv)) = Inr ((big_BitLen (rsa_N priv) + 7) div 8 * 8)"
    by (simp_all add: rsa_Size_def)
  have rsa2048: "2 ^ 2047 \<le> rsa_N pub \<and> rsa_N pub < 2 ^ 2048 \<longrightarrow>
      KeySize (NonNil (RSAPublicKeyPtr pub)) = Inr 2048"
    "2 ^ 2047 \<le> rsa_N priv \<and> rsa_N priv < 2 ^ 2048 \<longrightarrow>
      KeySize (NonNil (RSAPrivateKeyPtr priv)) = Inr 2048"
    by (simp_all add: rsa_Size_2048)
  have ec: "KeySize (NonNil (ECDSAPublicKeyPtr ecpub)) = Inr (cp_BitSize (ec_Curve ecpub))"
    "KeySize (NonNil (ECDSAPrivateKeyPtr ecpriv)) = Inr (cp_BitSize (ec_Curve ecpriv))"
    by (simp_all add: Params_def)
  have p256: "cp_BitSize elliptic_P256 = 256"
    by (simp add: elliptic_P256_def)
  from total rsa rsa2048 ec p256 show ?thesis
    by simp
qed

theorem C7_KeySize_non_nil_witness:
  "KeySize (NonNil (RSAPublicKeyPtr rsa2048_public)) = Inr 2048 \<and>
   KeySize (NonNil (RSAPrivateKeyPtr rsa2048_private)) = Inr 2048 \<and>
   KeySize (NonNil (RSAPublicKeyPtr rsa_small)) = Inr 16 \<and>
   KeySize (NonNil (ECDSAPublicKeyPtr p256_G)) = Inr 256 \<and>
   KeySize (NonNil (ECDSAPrivateKeyPtr p256_private)) = Inr 256 \<and>
   KeySize (NonNil (ECDSAPublicKeyPtr (p256_G\<lparr>ec_Curve := elliptic_P256\<lparr>cp_BitSize := 384\<rparr>\<rparr>))) =
     Inr 384 \<and>
   KeySize (NonNil (OtherType ''*ecdh.PublicKey'')) = Inr (- 1)"
proof -
  have curves: "ec_Curve p256_G = elliptic_P256" "ec_Curve p256_private = elliptic_P256"
    by (simp_all add: p256_G_def p256_private_def)
  have small: "big_BitLen (rsa_N rsa_small) = 12"
    by (simp add: rsa_small_def big_BitLen_def bitLen_nat.simps)
  show ?thesis
    using curves small rsa2048_public_bits rsa2048_private_bits
      C7_KeySize_non_nil [of "OtherType ''*ecdh.PublicKey''" rsa2048_public rsa2048_private
        p256_G p256_private "''*ecdh.PublicKey''"]
      C7_KeySize_non_nil [of "OtherType ''*ecdh.PublicKey''" rsa_small rsa2048_private
        "p256_G\<lparr>ec_Curve := elliptic_P256\<lparr>cp_BitSize := 384\<rparr>\<rparr>" p256_private
        "''*ecdh.PublicKey''"]
    by simp
qed

text \<open>
  The arms for RSA, ECDSA and DSA private keys size the public part the key embeds, so the
  two keys of a pair get one size.
\<close>

lemma KeySize_private_key_as_public_key:
  "KeySize (NonNil (RSAPrivateKeyPtr rsapriv)) =
     KeySize (NonNil (RSAPublicKeyPtr (rsa_PublicKey.truncate rsapriv))) \<and>
   KeySize (NonNil (ECDSAPrivateKeyPtr ecpriv)) =
     KeySize (NonNil (ECDSAPublicKeyPtr (ecdsa_PublicKey.truncate ecpriv))) \<and>
   KeySize (NonNil (DSAPrivateKey dsapriv)) =
     KeySize (NonNil (DSAPublicKey (dsa_PublicKey.truncate dsapriv)))"
  by (simp add: rsa_Size_def Params_def rsa_PublicKey.truncate_def
      ecdsa_PublicKey.truncate_def dsa_PublicKey.truncate_def)

text \<open>
  C8 (the size of every Ed25519 key, public or private, is the byte-length of the raw key
  times 8, and it is 256 in both families). The code does not have it for private keys: an
  \<^verbatim>\<open>ed25519.PrivateKey\<close> is the seed followed by the public key, 64 bytes, and the arm
  returns eight times that length. For the key pair of the first test vector of RFC 8032
  the public key gets 256 and the private key 512, where the arms of the other families
  give both keys of a pair the same size.
\<close>

theorem C8_ed25519_private_key_size_512:
  "length ed25519_public = 32 \<and> length ed25519_private = 64 \<and>
   KeySize (NonNil (Ed25519PublicKey ed25519_public)) = Inr 256 \<and>
   KeySize (NonNil (Ed25519PrivateKey ed25519_private)) = Inr 512"
  by (simp add: length_ed25519_public length_ed25519_private)

text \<open>
  C9 (no PEM block: every parser fails with the error for malformed input). When
  \<^verbatim>\<open>pem.Decode\<close> finds no block, each parser returns the error it builds for that case and
  calls no decoder of the library: \<^verbatim>\<open>ParseRSA\<close>, \<^verbatim>\<open>ParseECDSA\<close> and \<^verbatim>\<open>ParseX509\<close> the
  error "invalid PEM", \<^verbatim>\<open>ParsePublicKey\<close> the error "data does not contain any valid public
  keys".
\<close>

theorem C9_no_PEM_block:
  assumes "fst (pem_Decode s) = None"
  shows "ParsePublicKey pem_Decode pkix pcert s =
           Inl (Error ''data does not contain any valid public keys'') \<and>
         ParseX509 pem_Decode pcert s = Inl (Error ''invalid PEM'') \<and>
         ParseRSA pem_Decode prsa s = Inl (Error ''invalid PEM'') \<and>
         ParseECDSA pem_Decode pec s = Inl (Error ''invalid PEM'')"
  using assms by (simp add: ParsePublicKey_def ParseX509_def ParseRSA_def ParseECDSA_def)

theorem C9_no_PEM_block_witness:
  "fst (example_pem_Decode ''not a pem'') = None \<and>
   ParsePublicKey example_pem_Decode example_ParsePKIXPublicKey example_ParseCertificate
     ''not a pem'' = Inl (Error ''data does not contain any valid public keys'') \<and>
   ParseX509 example_pem_Decode example_ParseCertificate ''not a pem'' =
     Inl (Error ''invalid PEM'') \<and>
   ParseRSA example_pem_Decode example_ParsePKCS1PrivateKey ''not a pem'' =
     Inl (Error ''invalid PEM'') \<and>
   ParseECDSA example_pem_Decode example_ParseECPrivateKey ''not a pem'' =
     Inl (Error ''invalid PEM'')"
proof -
  have none: "fst (example_pem_Decode ''not a pem'') = None"
    by (simp add: example_pem_Decode_def)
  show ?thesis
    using none C9_no_PEM_block [where pem_Decode = example_pem_Decode and s = "''not a pem''"
        and pkix = example_ParsePKIXPublicKey and pcert = example_ParseCertificate
        and prsa = example_ParsePKCS1PrivateKey and pec = example_ParseECPrivateKey]
    by simp
qed

text \<open>
  C10 (the DSA arms match keys held by value only). For a \<^verbatim>\<open>dsa.PrivateKey\<close> or a
  \<^verbatim>\<open>dsa.PublicKey\<close> passed by value the size is the bit-length of \<open>Y\<close>; a pointer to either
  matches no arm and gets the sentinel \<open>-1\<close>, nil or not.
\<close>

theorem C10_KeySize_dsa_by_value_only:
  "KeySize (NonNil (DSAPrivateKey priv)) = Inr (big_BitLen (dsa_Y priv)) \<and>
   KeySize (NonNil (DSAPublicKey pub)) = Inr (big_BitLen (dsa_Y pub)) \<and>
   KeySize (NonNil (DSAPrivateKeyPtr priv)) = Inr (- 1) \<and>
   KeySize (NonNil (DSAPublicKeyPtr pub)) = Inr (- 1) \<and>
   KeySize NilDSAPrivateKeyPtr = Inr (- 1) \<and>
   KeySize NilDSAPublicKeyPtr = Inr (- 1)"
  by simp

theorem C10_KeySize_dsa_by_value_only_witness:
  "KeySize (NonNil (DSAPrivateKey dsa_small_private)) = Inr 8 \<and>
   KeySize (NonNil (DSAPublicKey dsa_small)) = Inr 8 \<and>
   KeySize (NonNil (DSAPrivateKeyPtr dsa_small_private)) = Inr (- 1) \<and>
   KeySize (NonNil (DSAPublicKeyPtr dsa_small)) = Inr (- 1)"
proof -
  have "big_BitLen 158 = 8"
    by (simp add: big_BitLen_def bitLen_nat.simps)
  then show ?thesis
    using C10_KeySize_dsa_by_value_only [of dsa_small_private dsa_small]
    by (simp add: dsa_small_def dsa_small_private_def)
qed

end
